theory Spec2Isabelle
  imports Complex_Main
begin

section \<open>Python values read from the question bank\<close>

text \<open>
  \<^verbatim>\<open>json.load\<close> yields \<^verbatim>\<open>None\<close>, booleans, integers, floats, strings, lists and
  dictionaries. A finite float is kept by its exact rational value; \<open>JNonFinite\<close> stands
  for the three values \<^verbatim>\<open>NaN\<close>, \<^verbatim>\<open>Infinity\<close> and \<^verbatim>\<open>-Infinity\<close> that \<^verbatim>\<open>json.load\<close>
  also accepts. A dictionary is an association list read with \<open>map_of\<close>.
\<close>

datatype json =
    JNull
  | JBool bool
  | JInt int
  | JFloat rat
  | JNonFinite
  | JStr string
  | JList "json list"
  | JObj "(string \<times> json) list"

type_synonym raw = "(string \<times> json) list"

datatype error =
    HTTPException int string
  | AttributeError
  | TypeError

text \<open>\<^verbatim>\<open>d.get(k)\<close> and \<^verbatim>\<open>d.get(k, default)\<close>.\<close>

definition get :: "raw \<Rightarrow> string \<Rightarrow> json" where
  "get q k = (case map_of q k of None \<Rightarrow> JNull | Some v \<Rightarrow> v)"

definition get_default :: "raw \<Rightarrow> string \<Rightarrow> json \<Rightarrow> json" where
  "get_default q k d = (case map_of q k of None \<Rightarrow> d | Some v \<Rightarrow> v)"

text \<open>Python truthiness, as used by \<^verbatim>\<open>x or y\<close>, \<^verbatim>\<open>not x\<close> and \<^verbatim>\<open>if x\<close>.\<close>

fun truthy :: "json \<Rightarrow> bool" where
  "truthy JNull = False"
| "truthy (JBool b) = b"
| "truthy (JInt i) = (i \<noteq> 0)"
| "truthy (JFloat r) = (r \<noteq> 0)"
| "truthy JNonFinite = True"
| "truthy (JStr s) = (s \<noteq> [])"
| "truthy (JList xs) = (xs \<noteq> [])"
| "truthy (JObj kvs) = (kvs \<noteq> [])"

fun is_list :: "json \<Rightarrow> bool" where
  "is_list (JList xs) = True"
| "is_list v = False"

fun list_items :: "json \<Rightarrow> json list" where
  "list_items (JList xs) = xs"
| "list_items v = []"

subsection \<open>Strings\<close>

text \<open>
  The whitespace of \<^verbatim>\<open>str.strip()\<close> and of \<^verbatim>\<open>int(str)\<close>, the decimal digits and the
  letters of \<^verbatim>\<open>str.upper()\<close> are the ASCII ones; a character is a byte here.
\<close>

definition is_space :: "char \<Rightarrow> bool" where
  "is_space c = (c \<in> set [CHR '' '', CHR 0x09, CHR 0x0A, CHR 0x0B, CHR 0x0C, CHR 0x0D,
                          CHR 0x1C, CHR 0x1D, CHR 0x1E, CHR 0x1F])"

definition strip :: "string \<Rightarrow> string" where
  "strip s = rev (dropWhile is_space (rev (dropWhile is_space s)))"

definition is_digit :: "char \<Rightarrow> bool" where
  "is_digit c = (48 \<le> (of_char c :: nat) \<and> (of_char c :: nat) \<le> 57)"

definition digit_val :: "char \<Rightarrow> nat" where
  "digit_val c = of_char c - 48"

definition upper_char :: "char \<Rightarrow> char" where
  "upper_char c = (if 97 \<le> (of_char c :: nat) \<and> (of_char c :: nat) \<le> 122
                   then char_of ((of_char c :: nat) - 32) else c)"

definition upper :: "string \<Rightarrow> string" where
  "upper s = map upper_char s"

text \<open>
  Digits with single underscores between them, as \<^verbatim>\<open>int\<close> accepts them; the caller
  has checked that the string is not empty.
\<close>

fun digits_val :: "nat \<Rightarrow> string \<Rightarrow> nat option" where
  "digits_val acc [] = Some acc"
| "digits_val acc [c] = (if is_digit c then Some (acc * 10 + digit_val c) else None)"
| "digits_val acc (c # d # cs) =
     (if is_digit c then digits_val (acc * 10 + digit_val c) (d # cs)
      else if c = CHR ''_'' \<and> is_digit d then digits_val acc (d # cs)
      else None)"

definition unsigned_of_str :: "string \<Rightarrow> nat option" where
  "unsigned_of_str s =
     (case s of [] \<Rightarrow> None
      | c # cs \<Rightarrow> if is_digit c then digits_val 0 s else None)"

text \<open>\<^verbatim>\<open>int(s)\<close> for a string: \<open>None\<close> where Python raises \<^verbatim>\<open>ValueError\<close>.\<close>

definition int_of_str :: "string \<Rightarrow> int option" where
  "int_of_str s =
     (case strip s of
        [] \<Rightarrow> None
      | c # cs \<Rightarrow>
          if c = CHR ''-'' then map_option (\<lambda>n. - int n) (unsigned_of_str cs)
          else if c = CHR ''+'' then map_option int (unsigned_of_str cs)
          else map_option int (unsigned_of_str (c # cs)))"

text \<open>\<^verbatim>\<open>str(n)\<close> for an integer.\<close>

fun str_of_nat :: "nat \<Rightarrow> string" where
  "str_of_nat n =
     (if n < 10 then [char_of (48 + n)]
      else str_of_nat (n div 10) @ [char_of (48 + n mod 10)])"

definition str_of_int :: "int \<Rightarrow> string" where
  "str_of_int i = (if i < 0 then CHR ''-'' # str_of_nat (nat (- i)) else str_of_nat (nat i))"

subsection \<open>\<^verbatim>\<open>safe_int\<close>\<close>

text \<open>
  \<^verbatim>\<open>int(v)\<close>: \<open>None\<close> where Python raises (\<^verbatim>\<open>None\<close>, a list, a dictionary, a string that
  is not a number, a float that is not finite). A float is truncated towards zero.
\<close>

fun py_int :: "json \<Rightarrow> int option" where
  "py_int JNull = None"
| "py_int (JBool b) = Some (if b then 1 else 0)"
| "py_int (JInt i) = Some i"
| "py_int (JFloat r) = Some (if 0 \<le> r then \<lfloor>r\<rfloor> else \<lceil>r\<rceil>)"
| "py_int JNonFinite = None"
| "py_int (JStr s) = int_of_str s"
| "py_int (JList xs) = None"
| "py_int (JObj kvs) = None"

definition safe_int :: "json \<Rightarrow> int \<Rightarrow> int" where
  "safe_int v dflt = (case py_int v of Some i \<Rightarrow> i | None \<Rightarrow> dflt)"

section \<open>The item catalog\<close>

text \<open>
  The dictionary that \<^verbatim>\<open>normalize_question\<close> and \<^verbatim>\<open>demo_question\<close> return. The id, the
  prompt, the section, the category and the discrimination are passed through from the
  bank, so they keep the type of a bank value.
\<close>

record question =
  q_id :: json
  q_prompt :: json
  q_choices :: "json list"
  q_answer_index :: int
  q_difficulty :: int
  q_time_limit_sec :: int
  q_stage :: string
  q_section :: json
  q_category :: json
  q_discrimination :: json

definition placeholder_choices :: "json list" where
  "placeholder_choices = [JStr ''A'', JStr ''B'', JStr ''C'', JStr ''D'']"

text \<open>
  \<^verbatim>\<open>normalize_question(raw, stage, fallback_level)\<close>; \<open>uuid\<close> is the value of
  \<^verbatim>\<open>str(uuid.uuid4())\<close>, used when the item has no id.
\<close>

definition normalize_question :: "raw \<Rightarrow> string \<Rightarrow> int \<Rightarrow> string \<Rightarrow> question" where
  "normalize_question q stage fallback_level uuid =
     (let qid = (if truthy (get q ''id'') then get q ''id'' else JStr uuid);
          prompt = (if truthy (get q ''prompt'') then get q ''prompt'' else JStr '''');
          choices0 = get q ''choices'';
          choices1 = (if \<not> is_list choices0 then get q ''options'' else choices0);
          choices = (if \<not> is_list choices1 \<or> length (list_items choices1) < 2
                     then placeholder_choices else list_items choices1);
          ans0 = get q ''answer_index'';
          ans = (if ans0 = JNull then get q ''correct_index'' else ans0);
          answer_index = safe_int ans 0;
          difficulty = safe_int (get_default q ''difficulty'' (JInt fallback_level)) fallback_level;
          time_limit_sec =
            (if stage = ''speed'' then safe_int (get_default q ''time_limit_sec'' (JInt 20)) 20
             else safe_int (get_default q ''time_limit_sec'' (JInt 45)) 45);
          section = (if truthy (get q ''section'') then get q ''section'' else JStr stage)
      in \<lparr> q_id = qid, q_prompt = prompt, q_choices = choices,
           q_answer_index = answer_index, q_difficulty = difficulty,
           q_time_limit_sec = time_limit_sec, q_stage = stage, q_section = section,
           q_category = get q ''category'',
           q_discrimination = get_default q ''discrimination'' (JFloat 1) \<rparr>)"

text \<open>
  \<^verbatim>\<open>demo_question(stage, adaptive_level)\<close>; \<open>rnd\<close> is the value of
  \<^verbatim>\<open>random.randint(1000, 9999)\<close>.
\<close>

definition demo_question :: "string \<Rightarrow> int \<Rightarrow> int \<Rightarrow> question" where
  "demo_question stage adaptive_level rnd =
     \<lparr> q_id = JStr (''DEMO-'' @ upper stage @ ''-'' @ str_of_int adaptive_level @ ''-''
                      @ str_of_int rnd),
       q_prompt = JStr (''Demo question for '' @ stage @ ''. Choose A.''),
       q_choices = [JStr ''A'', JStr ''B'', JStr ''C'', JStr ''D''],
       q_answer_index = 0,
       q_difficulty = (if stage = ''adaptive'' then adaptive_level else 2),
       q_time_limit_sec = (if stage = ''speed'' then 25 else 60),
       q_stage = stage,
       q_section = JStr stage,
       q_category = JStr ''demo'',
       q_discrimination = JFloat 1 \<rparr>"

subsection \<open>Selection\<close>

definition CLASSIC_CATS :: "string list" where
  "CLASSIC_CATS = [''logic_sequence'', ''arithmetic_reasoning'', ''algebra_basic'',
                   ''percent_ratio'', ''pattern_odd_one_out'', ''verbal_analogy_simple'']"

definition SPEED_CATS :: "string list" where
  "SPEED_CATS = [''arithmetic_reasoning'', ''percent_ratio'', ''pattern_odd_one_out'',
                 ''verbal_analogy_simple'']"

text \<open>
  \<^verbatim>\<open>(q.get("category") or "").strip()\<close>: a truthy category that is not a string has no
  \<^verbatim>\<open>strip\<close>, and Python raises \<^verbatim>\<open>AttributeError\<close>.
\<close>

definition category_of :: "raw \<Rightarrow> error + string" where
  "category_of q =
     (let c = get q ''category'' in
      if truthy c then (case c of JStr s \<Rightarrow> Inr (strip s) | _ \<Rightarrow> Inl AttributeError)
      else Inr (strip ''''))"

text \<open>The test of the loop body of \<^verbatim>\<open>pick_question\<close> for one item.\<close>

definition eligible :: "string \<Rightarrow> int \<Rightarrow> int \<Rightarrow> string \<Rightarrow> bool" where
  "eligible stage adaptive_level diff cat =
     (if stage = ''adaptive'' then \<bar>diff - adaptive_level\<bar> \<le> 1
      else if stage = ''classic'' then (cat \<in> set CLASSIC_CATS \<or> cat = []) \<and> 2 \<le> diff \<and> diff \<le> 4
      else (cat \<in> set SPEED_CATS \<or> cat = []) \<and> 1 \<le> diff \<and> diff \<le> 3)"

text \<open>The loop over the bank that collects the candidates, in bank order.\<close>

fun collect_candidates :: "raw list \<Rightarrow> string \<Rightarrow> int \<Rightarrow> error + raw list" where
  "collect_candidates [] stage adaptive_level = Inr []"
| "collect_candidates (q # bank) stage adaptive_level =
     (let diff = safe_int (get_default q ''difficulty'' (JInt 2)) 2 in
      case category_of q of
        Inl e \<Rightarrow> Inl e
      | Inr cat \<Rightarrow>
          (case collect_candidates bank stage adaptive_level of
             Inl e \<Rightarrow> Inl e
           | Inr rest \<Rightarrow> Inr (if eligible stage adaptive_level diff cat then q # rest else rest)))"

text \<open>
  \<^verbatim>\<open>random.choice(seq)\<close> on a non-empty sequence: \<open>r\<close> is the draw of the random source,
  reduced to an index of the sequence.
\<close>

definition random_choice :: "'a list \<Rightarrow> nat \<Rightarrow> 'a" where
  "random_choice xs r = xs ! (r mod length xs)"

text \<open>
  \<^verbatim>\<open>pick_question(stage, adaptive_level)\<close> over the bank loaded at start-up. \<open>r\<close>, \<open>rnd\<close>
  and \<open>uuid\<close> are the draws of \<^verbatim>\<open>random.choice\<close>, \<^verbatim>\<open>random.randint\<close> and \<^verbatim>\<open>uuid.uuid4\<close>.
\<close>

definition pick_question ::
  "raw list \<Rightarrow> string \<Rightarrow> int \<Rightarrow> nat \<Rightarrow> int \<Rightarrow> string \<Rightarrow> error + question" where
  "pick_question bank stage adaptive_level r rnd uuid =
     (if bank = [] then Inr (demo_question stage adaptive_level rnd)
      else case collect_candidates bank stage adaptive_level of
             Inl e \<Rightarrow> Inl e
           | Inr found \<Rightarrow>
               (let candidates = (if found = [] then bank else found);
                    chosen = random_choice candidates r
                in Inr (normalize_question chosen stage
                          (if stage = ''adaptive'' then adaptive_level else 2) uuid)))"

subsection \<open>Lookup by id\<close>

text \<open>
  \<^verbatim>\<open>QUESTION_BY_ID\<close> is built once from the bank: one entry per item with a truthy id,
  a later item replacing an earlier one with the same id. The dictionary is kept as the
  list of its assignments in bank order, read from the end. A list or a dictionary
  cannot be a key: Python raises \<^verbatim>\<open>TypeError\<close> and the module does not load.
\<close>

fun hashable :: "json \<Rightarrow> bool" where
  "hashable (JList xs) = False"
| "hashable (JObj kvs) = False"
| "hashable v = True"

fun QUESTION_BY_ID :: "raw list \<Rightarrow> error + (json \<times> raw) list" where
  "QUESTION_BY_ID [] = Inr []"
| "QUESTION_BY_ID (q # bank) =
     (if truthy (get q ''id'') then
        (if hashable (get q ''id'') then
           (case QUESTION_BY_ID bank of
              Inl e \<Rightarrow> Inl e
            | Inr d \<Rightarrow> Inr ((get q ''id'', q) # d))
         else Inl TypeError)
      else QUESTION_BY_ID bank)"

text \<open>
  \<^verbatim>\<open>QUESTION_BY_ID.get(qid)\<close> for a string \<open>qid\<close>: a key that is not a string is never
  equal to it.
\<close>

definition by_id_get :: "(json \<times> raw) list \<Rightarrow> string \<Rightarrow> raw option" where
  "by_id_get d qid = map_of (rev d) (JStr qid)"

definition get_question_by_id_or_fallback ::
  "(json \<times> raw) list \<Rightarrow> string \<Rightarrow> string \<Rightarrow> int \<Rightarrow> int \<Rightarrow> string \<Rightarrow> question" where
  "get_question_by_id_or_fallback d qid stage adaptive_level rnd uuid =
     (case by_id_get d qid of
        Some q \<Rightarrow> if q \<noteq> [] then normalize_question q stage adaptive_level uuid
                  else demo_question stage adaptive_level rnd
      | None \<Rightarrow> demo_question stage adaptive_level rnd)"

definition stage_limits :: "string \<Rightarrow> int" where
  "stage_limits stage =
     (if stage = ''adaptive'' then 12 else if stage = ''classic'' then 18 else 20)"

section \<open>The session store\<close>

text \<open>
  The three tables of \<^verbatim>\<open>db.py\<close>, each a list of rows in insertion order. The integer
  columns are \<^verbatim>\<open>INTEGER NOT NULL\<close> and only ever written with Python integers, so
  \<^verbatim>\<open>safe_int\<close> and \<^verbatim>\<open>row_get\<close> return them as they are. A time stamp is the string of
  \<^verbatim>\<open>now_iso()\<close>. Ids drawn from \<^verbatim>\<open>uuid.uuid4()\<close> are taken to be new, so an insertion
  never violates a primary key. The tables have the columns that \<^verbatim>\<open>init_db\<close> creates, so
  \<^verbatim>\<open>ensure_schema\<close> adds none and \<^verbatim>\<open>mark_token_used\<close> writes \<^verbatim>\<open>used_at\<close>.
\<close>

record session =
  s_id :: string
  s_user_id :: string
  s_token_id :: "string option"
  s_status :: string
  s_stage :: string
  s_stage_index :: int
  s_question_index :: int
  s_adaptive_level :: int
  s_started_at :: string
  s_finished_at :: "string option"
  s_final_iq :: "int option"
  s_percentile :: "int option"
  s_result_locked :: int
  s_unlock_token_id :: "string option"

record answer_row =
  a_id :: string
  a_session_id :: string
  a_question_id :: string
  a_chosen_index :: int
  a_is_correct :: int
  a_stage :: string
  a_difficulty :: int
  a_time_spent_sec :: int
  a_created_at :: string

record token_row =
  t_id :: string
  t_user_id :: string
  t_status :: string
  t_created_at :: string
  t_used_at :: "string option"
  t_paddle_txn_id :: "string option"
  t_amount :: rat

record db =
  test_sessions :: "session list"
  test_answers :: "answer_row list"
  test_tokens :: "token_row list"

text \<open>The default of \<^verbatim>\<open>PRICE_AMOUNT\<close>.\<close>

definition PRICE_AMOUNT :: rat where
  "PRICE_AMOUNT = 149 / 100"

text \<open>\<^verbatim>\<open>SELECT * FROM test_sessions WHERE id=? AND user_id=?\<close> with \<^verbatim>\<open>fetchone()\<close>.\<close>

definition select_session :: "db \<Rightarrow> string \<Rightarrow> string \<Rightarrow> session option" where
  "select_session d sid uid = find (\<lambda>s. s_id s = sid \<and> s_user_id s = uid) (test_sessions d)"

text \<open>\<^verbatim>\<open>UPDATE test_sessions SET ... WHERE id=? AND user_id=?\<close>.\<close>

definition update_session :: "db \<Rightarrow> string \<Rightarrow> string \<Rightarrow> (session \<Rightarrow> session) \<Rightarrow> db" where
  "update_session d sid uid f =
     d\<lparr> test_sessions :=
          map (\<lambda>s. if s_id s = sid \<and> s_user_id s = uid then f s else s) (test_sessions d) \<rparr>"

text \<open>\<^verbatim>\<open>SELECT ... FROM test_answers WHERE session_id=?\<close>.\<close>

definition select_answers :: "db \<Rightarrow> string \<Rightarrow> answer_row list" where
  "select_answers d sid = filter (\<lambda>a. a_session_id a = sid) (test_answers d)"

text \<open>The row that \<^verbatim>\<open>test_start\<close> inserts for a new session.\<close>

definition new_session :: "string \<Rightarrow> string \<Rightarrow> string \<Rightarrow> session" where
  "new_session session_id user_id now =
     \<lparr> s_id = session_id, s_user_id = user_id, s_token_id = None,
       s_status = ''in_progress'', s_stage = ''adaptive'', s_stage_index = 1,
       s_question_index = 1, s_adaptive_level = 2, s_started_at = now,
       s_finished_at = None, s_final_iq = None, s_percentile = None,
       s_result_locked = 1, s_unlock_token_id = None \<rparr>"

definition ensure_user_id :: "string option \<Rightarrow> error + string" where
  "ensure_user_id header =
     (let user_id = strip (case header of None \<Rightarrow> [] | Some h \<Rightarrow> h) in
      if user_id = [] then Inl (HTTPException 400 ''Missing X-User-Id header (temporary auth).'')
      else Inr user_id)"

section \<open>The scorer\<close>

text \<open>
  Python floats are modelled by exact rationals. \<^verbatim>\<open>round(x)\<close> rounds to the nearest
  integer and a tie to the even one; \<^verbatim>\<open>round(x, 4)\<close> does so at the fourth decimal.
\<close>

definition py_round :: "rat \<Rightarrow> int" where
  "py_round x =
     (let f = \<lfloor>x\<rfloor>; d = x - of_int f in
      if d < 1 / 2 then f else if 1 / 2 < d then f + 1 else if even f then f else f + 1)"

definition py_round4 :: "rat \<Rightarrow> rat" where
  "py_round4 x = of_int (py_round (x * 10000)) / 10000"

record result =
  res_iq :: int
  res_percentile :: int
  res_final_norm :: rat

text \<open>
  The loop of \<^verbatim>\<open>compute_result\<close> over the rows. The dictionaries \<^verbatim>\<open>pts\<close> and
  \<^verbatim>\<open>max_pts\<close> have the three stages as their keys from the start, so each is a function
  on stage names; a row of another stage is skipped.
\<close>

fun score_rows ::
  "answer_row list \<Rightarrow> (string \<Rightarrow> rat) \<Rightarrow> (string \<Rightarrow> rat) \<Rightarrow> (string \<Rightarrow> rat) \<times> (string \<Rightarrow> rat)" where
  "score_rows [] pts max_pts = (pts, max_pts)"
| "score_rows (r # rows) pts max_pts =
     (let stage = a_stage r in
      if stage \<notin> set [''adaptive'', ''classic'', ''speed''] then score_rows rows pts max_pts
      else
        let diff = a_difficulty r;
            w = 1 + of_int (diff - 1) * (15 / 100);
            max_pts1 = max_pts(stage := max_pts stage + w)
        in if a_is_correct r = 1 then
             let pts1 = pts(stage := pts stage + w) in
             if stage = ''speed'' then
               let t = a_time_spent_sec r;
                   bonus = max 0 (of_int (30 - min 30 t) / 30) * (2 / 10)
               in score_rows rows (pts1(stage := pts1 stage + bonus)) max_pts1
             else score_rows rows pts1 max_pts1
           else score_rows rows pts max_pts1)"

definition compute_result :: "db \<Rightarrow> string \<Rightarrow> result" where
  "compute_result d session_id =
     (case score_rows (select_answers d session_id) (\<lambda>s. 0) (\<lambda>s. 0) of
        (pts, max_pts) \<Rightarrow>
          let norm = (\<lambda>s. if max_pts s \<le> 0 then 0 else min 1 (pts s / max_pts s));
              final_norm = norm ''adaptive'' * (35 / 100) + norm ''classic'' * (45 / 100)
                           + norm ''speed'' * (20 / 100);
              iq = py_round (70 + final_norm * 60);
              perc = (if iq \<le> 70 then 2
                      else if iq \<le> 85 then 16
                      else if iq \<le> 100 then 50
                      else if iq \<le> 110 then 75
                      else if iq \<le> 115 then 84
                      else if iq \<le> 120 then 91
                      else if iq \<le> 125 then 95
                      else 98)
          in \<lparr> res_iq = iq, res_percentile = perc, res_final_norm = py_round4 final_norm \<rparr>)"

section \<open>Answering\<close>

record AnswerRequest =
  ar_session_id :: string
  ar_question_id :: string
  ar_chosen_index :: int
  ar_time_spent_sec :: int

text \<open>
  What one call of \<^verbatim>\<open>test_answer\<close> draws from its surroundings: the ids of
  \<^verbatim>\<open>uuid.uuid4()\<close>, the numbers of \<^verbatim>\<open>random\<close> and the clock readings of \<^verbatim>\<open>now_iso()\<close>,
  in the order of the calls.
\<close>

record draws =
  dr_rand_q :: int
  dr_uuid_q :: string
  dr_ans_id :: string
  dr_now_insert :: string
  dr_now_finish :: string
  dr_choice :: nat
  dr_rand_next :: int
  dr_uuid_next :: string

text \<open>The item as a response shows it, without the correct answer.\<close>

record question_view =
  v_id :: json
  v_prompt :: json
  v_choices :: "json list"
  v_time_limit_sec :: int
  v_stage :: string
  v_difficulty :: int

datatype answer_response =
    Finished string rat string
  | NextQuestion string int int question_view

definition view_of :: "question \<Rightarrow> string \<Rightarrow> question_view" where
  "view_of q stage =
     \<lparr> v_id = q_id q, v_prompt = q_prompt q, v_choices = q_choices q,
       v_time_limit_sec = q_time_limit_sec q, v_stage = stage, v_difficulty = q_difficulty q \<rparr>"

text \<open>
  The end of \<^verbatim>\<open>test_answer\<close> after the commit: the next item is picked and the stage index
  is read back from the store. An error raised here leaves the committed store as it is.
\<close>

definition serve_next ::
  "raw list \<Rightarrow> db \<Rightarrow> string \<Rightarrow> string \<Rightarrow> string \<Rightarrow> int \<Rightarrow> int \<Rightarrow> draws \<Rightarrow> error + answer_response" where
  "serve_next bank d sid user_id stage adaptive_level q_index dr =
     (case pick_question bank stage adaptive_level (dr_choice dr) (dr_rand_next dr) (dr_uuid_next dr) of
        Inl e \<Rightarrow> Inl e
      | Inr next_q \<Rightarrow>
          (case select_session d sid user_id of
             None \<Rightarrow> Inl TypeError
           | Some row \<Rightarrow>
               Inr (NextQuestion stage (s_stage_index row) q_index (view_of next_q stage))))"

text \<open>
  \<^verbatim>\<open>test_answer(request, payload)\<close>: the store after the call and the response or the
  error raised. \<open>header\<close> is the \<^verbatim>\<open>X-User-Id\<close> header, \<open>bank\<close> and \<open>by_id\<close> are
  \<^verbatim>\<open>QUESTION_BANK\<close> and \<^verbatim>\<open>QUESTION_BY_ID\<close>.
\<close>

definition test_answer ::
  "raw list \<Rightarrow> (json \<times> raw) list \<Rightarrow> db \<Rightarrow> string option \<Rightarrow> AnswerRequest \<Rightarrow> draws
     \<Rightarrow> db \<times> (error + answer_response)" where
  "test_answer bank by_id d header payload dr =
     (case ensure_user_id header of
        Inl e \<Rightarrow> (d, Inl e)
      | Inr user_id \<Rightarrow>
          (case select_session d (ar_session_id payload) user_id of
             None \<Rightarrow> (d, Inl (HTTPException 404 ''Session not found.''))
           | Some sess \<Rightarrow>
               if s_status sess \<noteq> ''in_progress''
               then (d, Inl (HTTPException 400 ''Session already completed.''))
               else
                 let stage = s_stage sess;
                     adaptive_level = s_adaptive_level sess;
                     q = get_question_by_id_or_fallback by_id (ar_question_id payload) stage
                           adaptive_level (dr_rand_q dr) (dr_uuid_q dr);
                     correct_index = q_answer_index q;
                     difficulty = q_difficulty q;
                     is_correct = (if ar_chosen_index payload = correct_index then 1 else 0 :: int);
                     d1 = d\<lparr> test_answers := test_answers d @
                            [\<lparr> a_id = dr_ans_id dr, a_session_id = ar_session_id payload,
                               a_question_id = ar_question_id payload,
                               a_chosen_index = ar_chosen_index payload,
                               a_is_correct = is_correct, a_stage = stage,
                               a_difficulty = difficulty,
                               a_time_spent_sec = ar_time_spent_sec payload,
                               a_created_at = dr_now_insert dr \<rparr>] \<rparr>;
                     adaptive_level1 =
                       (if stage = ''adaptive''
                        then (if is_correct = 1 then min 5 (adaptive_level + 1)
                              else max 1 (adaptive_level - 1))
                        else adaptive_level);
                     q_index = s_question_index sess + 1
                 in
                   if q_index > stage_limits stage then
                     (if stage = ''adaptive'' \<or> stage = ''classic'' then
                        let stage1 = (if stage = ''adaptive'' then ''classic'' else ''speed'');
                            stage_index1 = (if stage = ''adaptive'' then 2 else 3);
                            d2 = update_session d1 (ar_session_id payload) user_id
                                   (\<lambda>s. s\<lparr> s_stage := stage1, s_stage_index := stage_index1,
                                           s_question_index := 1,
                                           s_adaptive_level := adaptive_level1 \<rparr>)
                        in (d2, serve_next bank d2 (ar_session_id payload) user_id stage1
                                  adaptive_level1 1 dr)
                      else
                        let res = compute_result d1 (ar_session_id payload);
                            d2 = update_session d1 (ar_session_id payload) user_id
                                   (\<lambda>s. s\<lparr> s_status := ''completed'',
                                           s_finished_at := Some (dr_now_finish dr),
                                           s_final_iq := Some (res_iq res),
                                           s_percentile := Some (res_percentile res),
                                           s_result_locked := 1,
                                           s_unlock_token_id := None \<rparr>)
                        in (d2, Inr (Finished (ar_session_id payload) PRICE_AMOUNT
                                  ''Test completed. Result is locked. Pay $1.49 to unlock your IQ score and report.'')))
                   else
                     let d2 = update_session d1 (ar_session_id payload) user_id
                                (\<lambda>s. s\<lparr> s_question_index := q_index,
                                        s_adaptive_level := adaptive_level1 \<rparr>)
                     in (d2, serve_next bank d2 (ar_session_id payload) user_id stage
                               adaptive_level1 q_index dr)))"


section \<open>The unlock gate\<close>

record UnlockRequest =
  ur_session_id :: string
  ur_paid :: bool
  ur_paddle_txn_id :: "string option"

datatype unlock_response =
    AlreadyUnlocked string
  | Unlocked string string

record result_response =
  rr_session_id :: string
  rr_iq :: "int option"
  rr_percentile :: "int option"

text \<open>\<^verbatim>\<open>create_token\<close>; \<open>token_id\<close> is the value of \<^verbatim>\<open>str(uuid.uuid4())\<close>.\<close>

definition create_token :: "db \<Rightarrow> string \<Rightarrow> string option \<Rightarrow> string \<Rightarrow> string \<Rightarrow> db" where
  "create_token d user_id paddle_txn_id token_id now =
     d\<lparr> test_tokens := test_tokens d @
          [\<lparr> t_id = token_id, t_user_id = user_id, t_status = ''unused'', t_created_at = now,
             t_used_at = None, t_paddle_txn_id = paddle_txn_id, t_amount = PRICE_AMOUNT \<rparr>] \<rparr>"

definition mark_token_used :: "db \<Rightarrow> string \<Rightarrow> string \<Rightarrow> db" where
  "mark_token_used d token_id now =
     d\<lparr> test_tokens :=
          map (\<lambda>t. if t_id t = token_id then t\<lparr> t_status := ''used'', t_used_at := Some now \<rparr> else t)
            (test_tokens d) \<rparr>"

text \<open>
  \<^verbatim>\<open>unlock_result(request, payload)\<close>; \<open>token_id\<close>, \<open>now_created\<close> and \<open>now_used\<close>
  are the values drawn by \<^verbatim>\<open>create_token\<close> and \<^verbatim>\<open>mark_token_used\<close>.
\<close>

definition unlock_result ::
  "db \<Rightarrow> string option \<Rightarrow> UnlockRequest \<Rightarrow> string \<Rightarrow> string \<Rightarrow> string
     \<Rightarrow> db \<times> (error + unlock_response)" where
  "unlock_result d header payload token_id now_created now_used =
     (case ensure_user_id header of
        Inl e \<Rightarrow> (d, Inl e)
      | Inr user_id \<Rightarrow>
          if \<not> ur_paid payload then (d, Inl (HTTPException 402 ''Payment required.''))
          else
            (case select_session d (ur_session_id payload) user_id of
               None \<Rightarrow> (d, Inl (HTTPException 404 ''Session not found.''))
             | Some sess \<Rightarrow>
                 if s_status sess \<noteq> ''completed''
                 then (d, Inl (HTTPException 400 ''Session is not completed yet.''))
                 else if s_result_locked sess = 0
                 then (d, Inr (AlreadyUnlocked (ur_session_id payload)))
                 else
                   let txn = (case ur_paddle_txn_id payload of
                                None \<Rightarrow> ''MANUAL''
                              | Some t \<Rightarrow> if t = [] then ''MANUAL'' else t);
                       d1 = create_token d user_id (Some txn) token_id now_created;
                       d2 = mark_token_used d1 token_id now_used;
                       d3 = update_session d2 (ur_session_id payload) user_id
                              (\<lambda>s. s\<lparr> s_result_locked := 0, s_unlock_token_id := Some token_id \<rparr>)
                   in (d3, Inr (Unlocked (ur_session_id payload) token_id))))"

text \<open>\<^verbatim>\<open>get_result(request, session_id)\<close>; it only reads the store.\<close>

definition get_result :: "db \<Rightarrow> string option \<Rightarrow> string \<Rightarrow> error + result_response" where
  "get_result d header session_id =
     (case ensure_user_id header of
        Inl e \<Rightarrow> Inl e
      | Inr user_id \<Rightarrow>
          (case select_session d session_id user_id of
             None \<Rightarrow> Inl (HTTPException 404 ''Session not found.'')
           | Some sess \<Rightarrow>
               if s_status sess \<noteq> ''completed''
               then Inl (HTTPException 400 ''Session is not completed yet.'')
               else if s_result_locked sess = 1
               then Inl (HTTPException 402 ''Payment required. Result is locked.'')
               else Inr \<lparr> rr_session_id = session_id, rr_iq = s_final_iq sess,
                         rr_percentile = s_percentile sess \<rparr>))"

section \<open>The specification's wording of the scorer and of the stage machine\<close>


definition spec_weight :: "int \<Rightarrow> rat" where
  "spec_weight difficulty = 1 + (of_int difficulty - 1) * (15 / 100)"

definition spec_bonus :: "int \<Rightarrow> rat" where
  "spec_bonus time_spent = max 0 ((30 - of_int (min 30 time_spent)) / 30) * (2 / 10)"

definition spec_partition :: "answer_row list \<Rightarrow> string \<Rightarrow> answer_row list" where
  "spec_partition answers stage = filter (\<lambda>a. a_stage a = stage) answers"

definition spec_max_points :: "answer_row list \<Rightarrow> string \<Rightarrow> rat" where
  "spec_max_points answers stage =
     sum_list (map (\<lambda>a. spec_weight (a_difficulty a)) (spec_partition answers stage))"

definition spec_points :: "answer_row list \<Rightarrow> string \<Rightarrow> rat" where
  "spec_points answers stage =
     sum_list (map (\<lambda>a. if a_is_correct a = 1
                        then spec_weight (a_difficulty a)
                             + (if stage = ''speed'' then spec_bonus (a_time_spent_sec a) else 0)
                        else 0)
                 (spec_partition answers stage))"








section \<open>Properties of the catalog\<close>

text \<open>
  C3, as the code has it: the normalised item always has at least two choices. It keeps
  the raw \<^verbatim>\<open>choices\<close>, or the raw \<^verbatim>\<open>options\<close> when \<^verbatim>\<open>choices\<close> is not a list, when that
  is a list of two or more entries, and takes the four placeholder choices otherwise. The
  correct-answer index is the raw \<^verbatim>\<open>answer_index\<close> (the raw
  \<^verbatim>\<open>correct_index\<close> when that is absent or null) converted by \<^verbatim>\<open>int\<close>, and 0 when the
  conversion fails, which is then within the choices; an index that converts is passed on
  as it is and is not compared with the number of choices.
\<close>

theorem normalize_question_choices_and_index:
  "2 \<le> length (q_choices (normalize_question q stage fallback_level uuid))
   \<and> q_choices (normalize_question q stage fallback_level uuid)
       = (let c = (if is_list (get q ''choices'') then get q ''choices'' else get q ''options'')
          in if is_list c \<and> 2 \<le> length (list_items c) then list_items c
             else placeholder_choices)
   \<and> (py_int (if get q ''answer_index'' = JNull then get q ''correct_index''
               else get q ''answer_index'') = None
        \<longrightarrow> q_answer_index (normalize_question q stage fallback_level uuid) = 0
            \<and> 0 < length (q_choices (normalize_question q stage fallback_level uuid)))
   \<and> (\<forall>i. py_int (if get q ''answer_index'' = JNull then get q ''correct_index''
                    else get q ''answer_index'') = Some i
        \<longrightarrow> q_answer_index (normalize_question q stage fallback_level uuid) = i)"
  by (auto simp add: normalize_question_def Let_def placeholder_choices_def safe_int_def)

text \<open>
  An item of the generator's dialect whose index does not convert: the index is 0 and
  the four options are kept. An item of the older dialect with three choices and the
  index \<open>"2"\<close>: the index is 2.
\<close>

theorem normalize_question_choices_and_index_witness:
  "q_choices (normalize_question
      [(''options'', JList [JStr ''3'', JStr ''4'', JStr ''5'', JStr ''6'']),
       (''correct_index'', JStr ''x''), (''category'', JStr ''algebra_basic'')]
      ''classic'' 2 ''u'')
   = [JStr ''3'', JStr ''4'', JStr ''5'', JStr ''6'']
   \<and> q_answer_index (normalize_question
      [(''options'', JList [JStr ''3'', JStr ''4'', JStr ''5'', JStr ''6'']),
       (''correct_index'', JStr ''x''), (''category'', JStr ''algebra_basic'')]
      ''classic'' 2 ''u'') = 0
   \<and> q_choices (normalize_question
      [(''choices'', JList [JStr ''a'', JStr ''b'', JStr ''c'']), (''answer_index'', JStr ''2'')]
      ''speed'' 2 ''u'')
   = [JStr ''a'', JStr ''b'', JStr ''c'']
   \<and> q_answer_index (normalize_question
      [(''choices'', JList [JStr ''a'', JStr ''b'', JStr ''c'']), (''answer_index'', JStr ''2'')]
      ''speed'' 2 ''u'') = 2"
  using
    normalize_question_choices_and_index
      [of "[(''options'', JList [JStr ''3'', JStr ''4'', JStr ''5'', JStr ''6'']),
            (''correct_index'', JStr ''x''), (''category'', JStr ''algebra_basic'')]"
          "''classic''" 2 "''u''"]
    normalize_question_choices_and_index
      [of "[(''choices'', JList [JStr ''a'', JStr ''b'', JStr ''c'']), (''answer_index'', JStr ''2'')]"
          "''speed''" 2 "''u''"]
  by (simp add: get_def int_of_str_def strip_def is_space_def unsigned_of_str_def is_digit_def
      digit_val_def)

text \<open>
  C3 as stated fails: an item of the older dialect with two choices and
  \<^verbatim>\<open>answer_index\<close> 7 keeps the index 7, and an item of the generator's dialect with
  \<^verbatim>\<open>correct_index\<close> -1 keeps the index -1.
\<close>

theorem normalize_question_index_out_of_range:
  "\<not> (q_answer_index (normalize_question
          [(''choices'', JList [JStr ''a'', JStr ''b'']), (''answer_index'', JInt 7)]
          ''classic'' 2 ''u'')
        < int (length (q_choices (normalize_question
          [(''choices'', JList [JStr ''a'', JStr ''b'']), (''answer_index'', JInt 7)]
          ''classic'' 2 ''u''))))
   \<and> \<not> (0 \<le> q_answer_index (normalize_question
          [(''options'', JList [JStr ''a'', JStr ''b'', JStr ''c'', JStr ''d'']),
           (''correct_index'', JInt (- 1)), (''category'', JStr ''algebra_basic'')]
          ''classic'' 2 ''u''))"
  by (simp add: normalize_question_def Let_def get_def safe_int_def)

text \<open>
  C5: an item without a difficulty that is looked up by id for grading in the classic
  stage, at ability level 5, is given the difficulty 5, and the answer row records 5;
  \<^verbatim>\<open>pick_question\<close> gives the same item the difficulty 2 in that stage.
\<close>

theorem grading_fallback_difficulty_ignores_stage:
  "QUESTION_BY_ID [[(''id'', JStr ''Q1'')]] = Inr [(JStr ''Q1'', [(''id'', JStr ''Q1'')])]
   \<and> q_difficulty (get_question_by_id_or_fallback [(JStr ''Q1'', [(''id'', JStr ''Q1'')])]
                     ''Q1'' ''classic'' 5 1000 ''u'') = 5
   \<and> pick_question [[(''id'', JStr ''Q1'')]] ''classic'' 5 0 1000 ''u''
       = Inr (normalize_question [(''id'', JStr ''Q1'')] ''classic'' 2 ''u'')
   \<and> q_difficulty (normalize_question [(''id'', JStr ''Q1'')] ''classic'' 2 ''u'') = 2
   \<and> map a_difficulty (test_answers (fst (test_answer
         [[(''id'', JStr ''Q1'')]] [(JStr ''Q1'', [(''id'', JStr ''Q1'')])]
         \<lparr> test_sessions = [(new_session ''s1'' ''u1'' ''t0'')
                              \<lparr> s_stage := ''classic'', s_stage_index := 2, s_adaptive_level := 5 \<rparr>],
           test_answers = [], test_tokens = [] \<rparr>
         (Some ''u1'')
         \<lparr> ar_session_id = ''s1'', ar_question_id = ''Q1'', ar_chosen_index = 0, ar_time_spent_sec = 10 \<rparr>
         \<lparr> dr_rand_q = 1000, dr_uuid_q = ''u'', dr_ans_id = ''a1'', dr_now_insert = ''t1'',
           dr_now_finish = ''t1'', dr_choice = 0, dr_rand_next = 1000, dr_uuid_next = ''u'' \<rparr>))) = [5]"
  by (simp add: ensure_user_id_def is_space_def get_def get_default_def
      get_question_by_id_or_fallback_def by_id_get_def
      normalize_question_def safe_int_def pick_question_def category_of_def strip_def
      eligible_def random_choice_def test_answer_def select_session_def new_session_def
      stage_limits_def update_session_def Let_def)

text \<open>The same input, read off: the lookup for grading does not give the difficulty 2.\<close>

theorem grading_fallback_difficulty_ignores_stage_witness:
  "q_difficulty (get_question_by_id_or_fallback [(JStr ''Q1'', [(''id'', JStr ''Q1'')])]
                   ''Q1'' ''classic'' 5 1000 ''u'') \<noteq> 2"
  using grading_fallback_difficulty_ignores_stage by simp

section \<open>Properties of the session store\<close>

lemma ensure_user_id_u1: "ensure_user_id (Some ''u1'') = Inr ''u1''"
  by (simp add: ensure_user_id_def strip_def is_space_def)

lemma find_map_same:
  assumes "\<And>x. P (g x) = P x"
  shows "find P (map g xs) = map_option g (find P xs)"
  using assms by (induction xs) auto

lemma find_holds: "find P xs = Some x \<Longrightarrow> P x"
  by (induction xs) (auto split: if_splits)

text \<open>An update that keeps the key of a row is seen by the next look-up of that row.\<close>

lemma select_session_update:
  assumes "\<And>s. s_id (f s) = s_id s" and "\<And>s. s_user_id (f s) = s_user_id s"
  shows "select_session (update_session d sid uid f) sid uid
         = map_option f (select_session d sid uid)"
proof -
  let ?P = "\<lambda>s. s_id s = sid \<and> s_user_id s = uid"
  let ?g = "\<lambda>s. if ?P s then f s else s"
  have same: "\<And>x. ?P (?g x) = ?P x" using assms by simp
  have "find ?P (map ?g (test_sessions d)) = map_option ?g (find ?P (test_sessions d))"
    using same by (rule find_map_same)
  moreover have "map_option ?g (find ?P (test_sessions d)) = map_option f (find ?P (test_sessions d))"
  proof (cases "find ?P (test_sessions d)")
    case None
    then show ?thesis by simp
  next
    case (Some x)
    then have "?P x" by (rule find_holds)
    with Some show ?thesis by simp
  qed
  ultimately show ?thesis
    by (simp add: select_session_def update_session_def)
qed

text \<open>
  C10: with a user id in the header, a session id that matches no session of that user
  is answered with 404, and a session that is not in progress with 400; in both cases the
  store is returned as it was, so no answer row is inserted and no session is changed.
\<close>

theorem test_answer_rejects_without_mutation:
  "ensure_user_id header = Inr user_id \<Longrightarrow>
   (select_session d (ar_session_id payload) user_id = None
      \<longrightarrow> test_answer bank by_id d header payload dr
          = (d, Inl (HTTPException 404 ''Session not found.'')))
   \<and> (\<forall>sess. select_session d (ar_session_id payload) user_id = Some sess
             \<and> s_status sess \<noteq> ''in_progress''
      \<longrightarrow> test_answer bank by_id d header payload dr
          = (d, Inl (HTTPException 400 ''Session already completed.'')))"
  by (simp add: test_answer_def)

text \<open>A store with one completed session: an unknown session id and the completed one.\<close>

theorem test_answer_rejects_without_mutation_witness:
  "test_answer [] []
     \<lparr> test_sessions = [(new_session ''s1'' ''u1'' ''t0'')\<lparr> s_status := ''completed'' \<rparr>],
       test_answers = [], test_tokens = [] \<rparr>
     (Some ''u1'')
     \<lparr> ar_session_id = ''s2'', ar_question_id = ''Q1'', ar_chosen_index = 0, ar_time_spent_sec = 3 \<rparr>
     \<lparr> dr_rand_q = 1000, dr_uuid_q = ''u'', dr_ans_id = ''a1'', dr_now_insert = ''t1'',
       dr_now_finish = ''t1'', dr_choice = 0, dr_rand_next = 1000, dr_uuid_next = ''u'' \<rparr>
   = (\<lparr> test_sessions = [(new_session ''s1'' ''u1'' ''t0'')\<lparr> s_status := ''completed'' \<rparr>],
        test_answers = [], test_tokens = [] \<rparr>,
      Inl (HTTPException 404 ''Session not found.''))
   \<and> test_answer [] []
     \<lparr> test_sessions = [(new_session ''s1'' ''u1'' ''t0'')\<lparr> s_status := ''completed'' \<rparr>],
       test_answers = [], test_tokens = [] \<rparr>
     (Some ''u1'')
     \<lparr> ar_session_id = ''s1'', ar_question_id = ''Q1'', ar_chosen_index = 0, ar_time_spent_sec = 3 \<rparr>
     \<lparr> dr_rand_q = 1000, dr_uuid_q = ''u'', dr_ans_id = ''a1'', dr_now_insert = ''t1'',
       dr_now_finish = ''t1'', dr_choice = 0, dr_rand_next = 1000, dr_uuid_next = ''u'' \<rparr>
   = (\<lparr> test_sessions = [(new_session ''s1'' ''u1'' ''t0'')\<lparr> s_status := ''completed'' \<rparr>],
        test_answers = [], test_tokens = [] \<rparr>,
      Inl (HTTPException 400 ''Session already completed.''))"
  using
    test_answer_rejects_without_mutation [OF ensure_user_id_u1,
      of "\<lparr> test_sessions = [(new_session ''s1'' ''u1'' ''t0'')\<lparr> s_status := ''completed'' \<rparr>],
            test_answers = [], test_tokens = [] \<rparr>"
         "\<lparr> ar_session_id = ''s2'', ar_question_id = ''Q1'', ar_chosen_index = 0, ar_time_spent_sec = 3 \<rparr>"
         "[]" "[]"
         "\<lparr> dr_rand_q = 1000, dr_uuid_q = ''u'', dr_ans_id = ''a1'', dr_now_insert = ''t1'',
            dr_now_finish = ''t1'', dr_choice = 0, dr_rand_next = 1000, dr_uuid_next = ''u'' \<rparr>"]
    test_answer_rejects_without_mutation [OF ensure_user_id_u1,
      of "\<lparr> test_sessions = [(new_session ''s1'' ''u1'' ''t0'')\<lparr> s_status := ''completed'' \<rparr>],
            test_answers = [], test_tokens = [] \<rparr>"
         "\<lparr> ar_session_id = ''s1'', ar_question_id = ''Q1'', ar_chosen_index = 0, ar_time_spent_sec = 3 \<rparr>"
         "[]" "[]"
         "\<lparr> dr_rand_q = 1000, dr_uuid_q = ''u'', dr_ans_id = ''a1'', dr_now_insert = ''t1'',
            dr_now_finish = ''t1'', dr_choice = 0, dr_rand_next = 1000, dr_uuid_next = ''u'' \<rparr>"]
  by (simp add: select_session_def new_session_def)

section \<open>Properties of the unlock gate\<close>

lemma select_session_tokens [simp]:
  "select_session (create_token d u p t n) sid uid = select_session d sid uid"
  "select_session (mark_token_used d t n) sid uid = select_session d sid uid"
  by (simp_all add: select_session_def create_token_def mark_token_used_def)

lemma get_result_locked:
  assumes "ensure_user_id header = Inr uid" "select_session d sid uid = Some sess"
    "s_status sess = ''completed''" "s_result_locked sess = 1"
  shows "get_result d header sid = Inl (HTTPException 402 ''Payment required. Result is locked.'')"
  using assms by (simp add: get_result_def)

lemma unlock_unpaid:
  assumes "ensure_user_id header = Inr uid" "\<not> ur_paid payload"
  shows "unlock_result d header payload tok n1 n2 = (d, Inl (HTTPException 402 ''Payment required.''))"
  using assms by (simp add: unlock_result_def)

lemma unlock_first:
  assumes "ensure_user_id header = Inr uid" "select_session d sid uid = Some sess"
    "s_status sess = ''completed''" "s_result_locked sess = 1"
    "ur_session_id payload = sid" "ur_paid payload"
    "unlock_result d header payload tok n1 n2 = (d', r)"
  shows "r = Inr (Unlocked sid tok)"
    and "select_session d' sid uid = Some (sess\<lparr> s_result_locked := 0, s_unlock_token_id := Some tok \<rparr>)"
    and "test_tokens d' =
           map (\<lambda>t. if t_id t = tok then t\<lparr> t_status := ''used'', t_used_at := Some n2 \<rparr> else t)
             (test_tokens d)
           @ [\<lparr> t_id = tok, t_user_id = uid, t_status = ''used'', t_created_at = n1,
                t_used_at = Some n2,
                t_paddle_txn_id = Some (case ur_paddle_txn_id payload of
                                          None \<Rightarrow> ''MANUAL''
                                        | Some t \<Rightarrow> if t = [] then ''MANUAL'' else t),
                t_amount = PRICE_AMOUNT \<rparr>]"
    and "test_answers d' = test_answers d"
proof -
  let ?txn = "(case ur_paddle_txn_id payload of None \<Rightarrow> ''MANUAL'' | Some t \<Rightarrow> if t = [] then ''MANUAL'' else t)"
  let ?d2 = "mark_token_used (create_token d uid (Some ?txn) tok n1) tok n2"
  let ?f = "\<lambda>s. s\<lparr> s_result_locked := 0, s_unlock_token_id := Some tok \<rparr>"
  have eq: "unlock_result d header payload tok n1 n2 = (update_session ?d2 sid uid ?f, Inr (Unlocked sid tok))"
    using assms(1-6) by (simp add: unlock_result_def Let_def)
  with assms(7) have d': "d' = update_session ?d2 sid uid ?f" and r: "r = Inr (Unlocked sid tok)"
    by simp_all
  show "r = Inr (Unlocked sid tok)" by (rule r)
  have "select_session d' sid uid = map_option ?f (select_session ?d2 sid uid)"
    unfolding d' by (rule select_session_update) simp_all
  then show "select_session d' sid uid = Some (?f sess)"
    using assms(2) by simp
  show "test_tokens d' =
           map (\<lambda>t. if t_id t = tok then t\<lparr> t_status := ''used'', t_used_at := Some n2 \<rparr> else t)
             (test_tokens d)
           @ [\<lparr> t_id = tok, t_user_id = uid, t_status = ''used'', t_created_at = n1,
                t_used_at = Some n2, t_paddle_txn_id = Some ?txn, t_amount = PRICE_AMOUNT \<rparr>]"
    by (simp add: d' update_session_def mark_token_used_def create_token_def)
  show "test_answers d' = test_answers d"
    by (simp add: d' update_session_def mark_token_used_def create_token_def)
qed

lemma get_result_unlocked:
  assumes "ensure_user_id header = Inr uid" "select_session d sid uid = Some sess"
    "s_status sess = ''completed''" "s_result_locked sess = 0"
  shows "get_result d header sid
         = Inr \<lparr> rr_session_id = sid, rr_iq = s_final_iq sess, rr_percentile = s_percentile sess \<rparr>"
  using assms by (simp add: get_result_def)

lemma unlock_again:
  assumes "ensure_user_id header = Inr uid" "select_session d sid uid = Some sess"
    "s_status sess = ''completed''" "s_result_locked sess = 0"
    "ur_session_id payload = sid" "ur_paid payload"
  shows "unlock_result d header payload tok n1 n2 = (d, Inr (AlreadyUnlocked sid))"
  using assms by (simp add: unlock_result_def)

text \<open>
  C8: for a completed session of the calling user whose result is locked, retrieval of
  the result fails with 402 (payment required); an unlock call with \<open>paid = False\<close>
  fails with 402 and changes nothing; an unlock call with \<open>paid = True\<close> succeeds,
  clears the lock, stores the new token's id in the session and adds exactly one token
  row, after which retrieval returns the stored score and percentile; and every later
  paid unlock call on the resulting store reports \<open>already_unlocked\<close> and returns that
  store unchanged, so no further token row is created.
\<close>

theorem unlock_gate:
  assumes "ensure_user_id header = Inr uid"
    and "select_session d sid uid = Some sess"
    and "s_status sess = ''completed''"
    and "s_result_locked sess = 1"
  shows "get_result d header sid = Inl (HTTPException 402 ''Payment required. Result is locked.'')
    \<and> unlock_result d header \<lparr> ur_session_id = sid, ur_paid = False, ur_paddle_txn_id = txn \<rparr> tok n1 n2
        = (d, Inl (HTTPException 402 ''Payment required.''))
    \<and> (\<exists>d'. unlock_result d header \<lparr> ur_session_id = sid, ur_paid = True, ur_paddle_txn_id = txn \<rparr> tok n1 n2
               = (d', Inr (Unlocked sid tok))
          \<and> select_session d' sid uid
              = Some (sess\<lparr> s_result_locked := 0, s_unlock_token_id := Some tok \<rparr>)
          \<and> length (test_tokens d') = length (test_tokens d) + 1
          \<and> t_id (last (test_tokens d')) = tok
          \<and> get_result d' header sid
              = Inr \<lparr> rr_session_id = sid, rr_iq = s_final_iq sess, rr_percentile = s_percentile sess \<rparr>
          \<and> (\<forall>txn' tok' m1 m2.
                unlock_result d' header \<lparr> ur_session_id = sid, ur_paid = True, ur_paddle_txn_id = txn' \<rparr>
                  tok' m1 m2
                = (d', Inr (AlreadyUnlocked sid))))"
proof -
  let ?paid = "\<lparr> ur_session_id = sid, ur_paid = True, ur_paddle_txn_id = txn \<rparr>"
  obtain d' r where run: "unlock_result d header ?paid tok n1 n2 = (d', r)"
    by (cases "unlock_result d header ?paid tok n1 n2")
  note first = unlock_first [OF assms(1-4) _ _ run]
  have r: "r = Inr (Unlocked sid tok)"
    using first(1) by simp
  have sel: "select_session d' sid uid = Some (sess\<lparr> s_result_locked := 0, s_unlock_token_id := Some tok \<rparr>)"
    using first(2) by simp
  have toks: "length (test_tokens d') = length (test_tokens d) + 1 \<and> t_id (last (test_tokens d')) = tok"
    using first(3) by simp
  have res: "get_result d' header sid
        = Inr \<lparr> rr_session_id = sid, rr_iq = s_final_iq sess, rr_percentile = s_percentile sess \<rparr>"
    using get_result_unlocked [OF assms(1) sel] assms(3) by simp
  have again: "\<And>txn' tok' m1 m2.
      unlock_result d' header \<lparr> ur_session_id = sid, ur_paid = True, ur_paddle_txn_id = txn' \<rparr> tok' m1 m2
      = (d', Inr (AlreadyUnlocked sid))"
    using unlock_again [OF assms(1) sel] assms(3) by simp
  have locked: "get_result d header sid = Inl (HTTPException 402 ''Payment required. Result is locked.'')"
    using assms by (rule get_result_locked)
  have unpaid: "unlock_result d header \<lparr> ur_session_id = sid, ur_paid = False, ur_paddle_txn_id = txn \<rparr> tok n1 n2
        = (d, Inl (HTTPException 402 ''Payment required.''))"
    using assms(1) by (simp add: unlock_unpaid)
  show ?thesis
    using locked unpaid run r sel toks res again by blast
qed

text \<open>A store with one completed, locked session of user \<open>u1\<close>.\<close>

theorem unlock_gate_witness:
  "get_result
     \<lparr> test_sessions = [(new_session ''s1'' ''u1'' ''t0'')
                          \<lparr> s_status := ''completed'', s_final_iq := Some 100, s_percentile := Some 50 \<rparr>],
       test_answers = [], test_tokens = [] \<rparr>
     (Some ''u1'') ''s1''
   = Inl (HTTPException 402 ''Payment required. Result is locked.'')
   \<and> snd (unlock_result
     \<lparr> test_sessions = [(new_session ''s1'' ''u1'' ''t0'')
                          \<lparr> s_status := ''completed'', s_final_iq := Some 100, s_percentile := Some 50 \<rparr>],
       test_answers = [], test_tokens = [] \<rparr>
     (Some ''u1'') \<lparr> ur_session_id = ''s1'', ur_paid = True, ur_paddle_txn_id = None \<rparr>
     ''tok1'' ''t1'' ''t2'')
   = Inr (Unlocked ''s1'' ''tok1'')"
  using unlock_gate [OF ensure_user_id_u1,
    of "\<lparr> test_sessions = [(new_session ''s1'' ''u1'' ''t0'')
                             \<lparr> s_status := ''completed'', s_final_iq := Some 100, s_percentile := Some 50 \<rparr>],
          test_answers = [], test_tokens = [] \<rparr>"
       "''s1''"
       "(new_session ''s1'' ''u1'' ''t0'')
          \<lparr> s_status := ''completed'', s_final_iq := Some 100, s_percentile := Some 50 \<rparr>"
       None "''tok1''" "''t1''" "''t2''"]
  by (auto simp add: select_session_def new_session_def)

section \<open>Properties of the stage machine and of the ability tracker\<close>

lemma test_answers_update_session [simp]:
  "test_answers (update_session d sid uid f) = test_answers d"
  by (simp add: update_session_def)

lemma compute_result_update_session [simp]:
  "compute_result (update_session d sid uid f) sid' = compute_result d sid'"
  by (simp add: compute_result_def select_answers_def)

lemma select_session_answers [simp]:
  "select_session (d\<lparr> test_answers := xs \<rparr>) sid uid = select_session d sid uid"
  by (simp add: select_session_def)




lemma update_session_all:
  assumes "\<forall>s \<in> set (test_sessions d). P s"
    and "\<And>s. P s \<Longrightarrow> P (f s)"
  shows "\<forall>s \<in> set (test_sessions (update_session d sid uid f)). P s"
  using assms by (auto simp add: update_session_def)











section \<open>Properties of the scorer\<close>

lemma spec_points_Nil [simp]: "spec_points [] s = 0"
  by (simp add: spec_points_def spec_partition_def)

lemma spec_max_points_Nil [simp]: "spec_max_points [] s = 0"
  by (simp add: spec_max_points_def spec_partition_def)
























section \<open>Properties of the selector\<close>

text \<open>
  When no item has a category that makes \<^verbatim>\<open>strip\<close> fail, the loop of \<^verbatim>\<open>pick_question\<close>
  is a filter of the bank.
\<close>

lemma collect_candidates_filter:
  assumes "\<forall>q \<in> set bank. category_of q \<noteq> Inl AttributeError"
  shows "collect_candidates bank stage lvl =
     Inr (filter (\<lambda>q. case category_of q of
                         Inr cat \<Rightarrow> eligible stage lvl (safe_int (get_default q ''difficulty'' (JInt 2)) 2) cat
                       | Inl e \<Rightarrow> False) bank)"
  using assms
proof (induction bank)
  case Nil
  then show ?case by simp
next
  case (Cons q bank)
  have "category_of q \<noteq> Inl AttributeError" using Cons.prems by simp
  then obtain cat where cat: "category_of q = Inr cat"
    by (auto simp add: category_of_def Let_def split: json.splits if_splits)
  have "collect_candidates bank stage lvl =
     Inr (filter (\<lambda>q. case category_of q of
                         Inr cat \<Rightarrow> eligible stage lvl (safe_int (get_default q ''difficulty'' (JInt 2)) 2) cat
                       | Inl e \<Rightarrow> False) bank)"
    using Cons.prems by (intro Cons.IH) simp
  then show ?case by (simp add: cat Let_def)
qed

lemma random_choice_in_set: "xs \<noteq> [] \<Longrightarrow> random_choice xs r \<in> set xs"
  by (simp add: random_choice_def)

lemma random_choice_reaches:
  assumes "x \<in> set xs"
  shows "\<exists>r. random_choice xs r = x"
proof -
  from assms obtain i where "i < length xs" "xs ! i = x"
    by (auto simp add: in_set_conv_nth)
  then have "random_choice xs i = x" by (simp add: random_choice_def)
  then show ?thesis ..
qed

lemma pick_question_of_found:
  assumes "bank \<noteq> []" and "collect_candidates bank stage lvl = Inr found"
  shows "pick_question bank stage lvl r rnd uuid
         = Inr (normalize_question (random_choice (if found = [] then bank else found) r) stage
                  (if stage = ''adaptive'' then lvl else 2) uuid)"
  using assms by (simp add: pick_question_def Let_def)

text \<open>
  C6, as the code has it: \<^verbatim>\<open>pick_question(stage, adaptive_level)\<close> takes no set of used
  ids. On a catalog that is not empty and has no item with a truthy category that is not
  a string, it returns the normalisation of the item that the random source draws from
  the candidates: the items that pass the stage's test, or the whole catalog when none
  does. The fallback difficulty is the ability level in the adaptive stage and 2
  otherwise, and every candidate is returned for some draw, whether it was served before
  or not.
\<close>

theorem pick_question_draws_from_candidates:
  assumes "bank \<noteq> []"
    and "\<forall>q \<in> set bank. category_of q \<noteq> Inl AttributeError"
  shows "let found = filter (\<lambda>q. case category_of q of
                                  Inr cat \<Rightarrow> eligible stage lvl
                                    (safe_int (get_default q ''difficulty'' (JInt 2)) 2) cat
                                | Inl e \<Rightarrow> False) bank;
             candidates = (if found = [] then bank else found);
             fallback = (if stage = ''adaptive'' then lvl else 2)
         in pick_question bank stage lvl r rnd uuid
              = Inr (normalize_question (random_choice candidates r) stage fallback uuid)
            \<and> random_choice candidates r \<in> set candidates
            \<and> (\<forall>q \<in> set candidates. \<exists>r'.
                  pick_question bank stage lvl r' rnd uuid
                  = Inr (normalize_question q stage fallback uuid))"
proof -
  define found where "found = filter (\<lambda>q. case category_of q of
                                  Inr cat \<Rightarrow> eligible stage lvl
                                    (safe_int (get_default q ''difficulty'' (JInt 2)) 2) cat
                                | Inl e \<Rightarrow> False) bank"
  define cands where "cands = (if found = [] then bank else found)"
  define fb where "fb = (if stage = ''adaptive'' then lvl else 2)"
  have cc: "collect_candidates bank stage lvl = Inr found"
    unfolding found_def using assms(2) by (rule collect_candidates_filter)
  have pick: "pick_question bank stage lvl r' rnd uuid
      = Inr (normalize_question (random_choice cands r') stage fb uuid)" for r'
    unfolding cands_def fb_def using assms(1) cc by (rule pick_question_of_found)
  have ne: "cands \<noteq> []"
    unfolding cands_def using assms(1) by (cases "found = []") simp_all
  have mem: "random_choice cands r \<in> set cands"
    using ne by (rule random_choice_in_set)
  have reach: "\<exists>r'. pick_question bank stage lvl r' rnd uuid
                  = Inr (normalize_question q stage fb uuid)" if q: "q \<in> set cands" for q
  proof -
    obtain r' where r': "random_choice cands r' = q"
      using random_choice_reaches [OF q] ..
    have "pick_question bank stage lvl r' rnd uuid
        = Inr (normalize_question q stage fb uuid)"
      unfolding pick [of r'] r' ..
    then show ?thesis ..
  qed
  have "pick_question bank stage lvl r rnd uuid
              = Inr (normalize_question (random_choice cands r) stage fb uuid)
            \<and> random_choice cands r \<in> set cands
            \<and> (\<forall>q \<in> set cands. \<exists>r'.
                  pick_question bank stage lvl r' rnd uuid
                  = Inr (normalize_question q stage fb uuid))"
    using pick [of r] mem reach by (intro conjI ballI)
  then show ?thesis
    unfolding Let_def found_def cands_def fb_def .
qed

text \<open>Two items, of which only the first is within one level of ability 2.\<close>

theorem pick_question_draws_from_candidates_witness:
  "pick_question
     [[(''id'', JStr ''Q1''), (''difficulty'', JInt 2)], [(''id'', JStr ''Q2''), (''difficulty'', JInt 5)]]
     ''adaptive'' 2 1 1000 ''u''
   = Inr (normalize_question [(''id'', JStr ''Q1''), (''difficulty'', JInt 2)] ''adaptive'' 2 ''u'')"
  using pick_question_draws_from_candidates
    [of "[[(''id'', JStr ''Q1''), (''difficulty'', JInt 2)], [(''id'', JStr ''Q2''), (''difficulty'', JInt 5)]]"
        "''adaptive''" 2 1 1000 "''u''"]
  by (simp add: category_of_def get_def get_default_def safe_int_def eligible_def strip_def
      random_choice_def Let_def)

text \<open>
  C6 as stated fails: with the items \<open>Q1\<close> and \<open>Q2\<close> both eligible and \<open>Q1\<close> already
  used, the draw 0 serves \<open>Q1\<close> again although \<open>Q2\<close> is eligible and unused.
\<close>

theorem pick_question_repeats_used_item:
  "map_sum id q_id (pick_question
     [[(''id'', JStr ''Q1''), (''difficulty'', JInt 2)], [(''id'', JStr ''Q2''), (''difficulty'', JInt 2)]]
     ''adaptive'' 2 0 1000 ''u'') = Inr (JStr ''Q1'')
   \<and> JStr ''Q1'' \<in> set [JStr ''Q1'']
   \<and> collect_candidates
     [[(''id'', JStr ''Q1''), (''difficulty'', JInt 2)], [(''id'', JStr ''Q2''), (''difficulty'', JInt 2)]]
     ''adaptive'' 2
     = Inr [[(''id'', JStr ''Q1''), (''difficulty'', JInt 2)], [(''id'', JStr ''Q2''), (''difficulty'', JInt 2)]]
   \<and> get [(''id'', JStr ''Q2''), (''difficulty'', JInt 2)] ''id'' \<notin> set [JStr ''Q1'']"
  by (simp add: pick_question_def category_of_def get_def get_default_def safe_int_def
      eligible_def strip_def random_choice_def normalize_question_def Let_def)

section \<open>Properties of the demo item\<close>






end
